theory Spec2Isabelle
  imports Main
begin

section \<open>The document boundary\<close>

text \<open>
  The serializer and the validators read and build JSON through the ArduinoJson
  document type (\<^verbatim>\<open>JsonDocument\<close>, \<^verbatim>\<open>JsonVariant\<close>, \<^verbatim>\<open>JsonArray\<close>,
  \<^verbatim>\<open>JsonObject\<close>).  That library is not part of the repository; a document is
  modelled by the tree it holds.  A string node carries its characters, which may
  include NUL (the reader decodes \<^verbatim>\<open>\u0000\<close>), an integer node a value that fits
  64 bits (signed or unsigned), and a float node the decimal literal \<open>m * 10 ^ e\<close>
  as the pair \<open>(m, e)\<close>; what the literal is as a \<^verbatim>\<open>double\<close> is a parameter of
  the model (see the record \<open>ext\<close>).
\<close>

datatype json =
    JNull
  | JBool bool
  | JInt int
  | JFloat int int
  | JString string
  | JArray "json list"
  | JObject "(string \<times> json) list"

text \<open>\<^verbatim>\<open>doc[fieldName]\<close>: the member of an object, the null variant when the key is
  missing or the document is not an object.\<close>

definition get_member :: "json \<Rightarrow> string \<Rightarrow> json" where
  "get_member doc k =
     (case doc of
        JObject kvs \<Rightarrow> (case map_of kvs k of Some v \<Rightarrow> v | None \<Rightarrow> JNull)
      | _ \<Rightarrow> JNull)"

fun isNull :: "json \<Rightarrow> bool" where
  "isNull JNull = True"
| "isNull _ = False"

text \<open>\<^verbatim>\<open>is<const char*>()\<close>, \<^verbatim>\<open>is<JsonArray>()\<close>, \<^verbatim>\<open>is<JsonObject>()\<close>.\<close>

fun is_cstr :: "json \<Rightarrow> bool" where
  "is_cstr (JString _) = True"
| "is_cstr _ = False"

fun is_JsonArray :: "json \<Rightarrow> bool" where
  "is_JsonArray (JArray _) = True"
| "is_JsonArray _ = False"

fun is_JsonObject :: "json \<Rightarrow> bool" where
  "is_JsonObject (JObject _) = True"
| "is_JsonObject _ = False"

text \<open>\<^verbatim>\<open>as<const char*>()\<close>: a pointer to the characters of a string node, the
  null pointer (\<open>None\<close>) for every other node.  A \<^verbatim>\<open>std::string\<close> built from the
  pointer holds the characters before the first NUL (\<open>cstring\<close>).\<close>

fun as_cstr :: "json \<Rightarrow> string option" where
  "as_cstr (JString s) = Some s"
| "as_cstr _ = None"

definition cstring :: "string \<Rightarrow> string" where
  "cstring s = takeWhile (\<lambda>c. c \<noteq> CHR 0x00) s"

text \<open>\<^verbatim>\<open>as<JsonArray>().size()\<close> and \<^verbatim>\<open>as<JsonObject>().size()\<close>.\<close>

fun array_size :: "json \<Rightarrow> nat" where
  "array_size (JArray xs) = length xs"
| "array_size _ = 0"

fun object_size :: "json \<Rightarrow> nat" where
  "object_size (JObject kvs) = length kvs"
| "object_size _ = 0"

section \<open>Errors\<close>

text \<open>
  Every \<^verbatim>\<open>throw\<close> of the library is a \<^verbatim>\<open>std::invalid_argument\<close> with a message.
  Constructing a \<^verbatim>\<open>std::string\<close> from a null \<^verbatim>\<open>const char*\<close> has no defined
  result (the GNU library raises \<^verbatim>\<open>std::logic_error\<close>); it is the error
  \<open>Null_string\<close>.  \<open>Not_instantiable\<close> stands for a template instantiation that
  the compiler rejects, \<open>External\<close> for a failure raised by a user type's own codec.
\<close>

datatype error =
    Invalid_argument string
  | Null_string
  | Not_instantiable
  | External string

section \<open>Field validators (ValidationUtility.h)\<close>

definition separator :: string where
  "separator = [CHR '','', CHR 0x0A]"

definition quote :: string where
  "quote = [CHR 0x27]"

text \<open>The three statements that every failing branch runs:
  \<^verbatim>\<open>if (!validationErrors.empty()) validationErrors += ",\n";\<close> followed by the
  appends of the message parts.\<close>

definition append_error :: "string \<Rightarrow> string \<Rightarrow> string" where
  "append_error validationErrors msg =
     (if validationErrors \<noteq> [] then validationErrors @ separator else validationErrors) @ msg"

definition ValidateNotNull :: "json \<Rightarrow> string \<Rightarrow> string \<Rightarrow> bool \<times> string" where
  "ValidateNotNull doc fieldName validationErrors =
     (if isNull (get_member doc fieldName) then
        (False, append_error validationErrors
           (''NotNull field '' @ quote @ fieldName @ quote @ '' is required but was null or missing''))
      else (True, validationErrors))"

text \<open>\<^verbatim>\<open>find_first_not_of\<close>, \<^verbatim>\<open>find_last_not_of\<close> (\<open>None\<close> is \<^verbatim>\<open>npos\<close>) and the two
  forms of \<^verbatim>\<open>erase\<close> of \<^verbatim>\<open>std::string\<close>.\<close>

fun find_first_not_of :: "string \<Rightarrow> string \<Rightarrow> nat option" where
  "find_first_not_of [] cs = None"
| "find_first_not_of (x # xs) cs =
     (if x \<in> set cs then map_option Suc (find_first_not_of xs cs) else Some 0)"

definition find_last_not_of :: "string \<Rightarrow> string \<Rightarrow> nat option" where
  "find_last_not_of s cs =
     (case find_first_not_of (rev s) cs of
        None \<Rightarrow> None
      | Some i \<Rightarrow> Some (length s - 1 - i))"

definition erase_prefix :: "string \<Rightarrow> nat \<Rightarrow> string" where
  "erase_prefix s n = drop n s"

definition erase_from :: "string \<Rightarrow> nat \<Rightarrow> string" where
  "erase_from s pos = take pos s"

definition blank_chars :: string where
  "blank_chars = [CHR '' '', CHR 0x09, CHR 0x0A, CHR 0x0D]"

definition trim_leading :: "string \<Rightarrow> string" where
  "trim_leading fieldValue =
     (case find_first_not_of fieldValue blank_chars of
        Some start \<Rightarrow> erase_prefix fieldValue start
      | None \<Rightarrow> [])"

definition trim_trailing :: "string \<Rightarrow> string" where
  "trim_trailing trimmed =
     (if trimmed \<noteq> [] then
        (case find_last_not_of trimmed blank_chars of
           Some e \<Rightarrow> erase_from trimmed (e + 1)
         | None \<Rightarrow> [])
      else trimmed)"

definition ValidateNotBlank :: "json \<Rightarrow> string \<Rightarrow> string \<Rightarrow> error + bool \<times> string" where
  "ValidateNotBlank doc fieldName validationErrors =
     (if isNull (get_member doc fieldName) then
        Inr (False, append_error validationErrors
           (''NotBlank field '' @ quote @ fieldName @ quote @ '' is required but was null or missing''))
      else
        (case as_cstr (get_member doc fieldName) of
           None \<Rightarrow> Inl Null_string
         | Some str \<Rightarrow>
             (let fieldValue = cstring str;
                  trimmed = trim_trailing (trim_leading fieldValue) in
              if trimmed = [] then
                Inr (False, append_error validationErrors
                   (''NotBlank field '' @ quote @ fieldName @ quote @ '' cannot be empty or blank''))
              else Inr (True, validationErrors))))"

definition ValidateNotEmpty :: "json \<Rightarrow> string \<Rightarrow> string \<Rightarrow> bool \<times> string" where
  "ValidateNotEmpty doc fieldName validationErrors =
     (let field = get_member doc fieldName in
      if isNull field then
        (False, append_error validationErrors
           (''NotEmpty field '' @ quote @ fieldName @ quote @ '' is required but was null or missing''))
      else if is_cstr field then
        (if cstring (the (as_cstr field)) = [] then
           (False, append_error validationErrors
              (''NotEmpty field '' @ quote @ fieldName @ quote @ '' cannot be empty''))
         else (True, validationErrors))
      else if is_JsonArray field then
        (if array_size field = 0 then
           (False, append_error validationErrors
              (''NotEmpty field '' @ quote @ fieldName @ quote @ '' (array/collection) cannot be empty''))
         else (True, validationErrors))
      else if is_JsonObject field then
        (if object_size field = 0 then
           (False, append_error validationErrors
              (''NotEmpty field '' @ quote @ fieldName @ quote @ '' (map) cannot be empty''))
         else (True, validationErrors))
      else (True, validationErrors))"

subsection \<open>The error log\<close>

text \<open>The messages a validator can append for a field, in the order of the source.\<close>

definition failure_messages :: "string \<Rightarrow> string list" where
  "failure_messages f =
     [''NotNull field '' @ quote @ f @ quote @ '' is required but was null or missing'',
      ''NotBlank field '' @ quote @ f @ quote @ '' is required but was null or missing'',
      ''NotBlank field '' @ quote @ f @ quote @ '' cannot be empty or blank'',
      ''NotEmpty field '' @ quote @ f @ quote @ '' is required but was null or missing'',
      ''NotEmpty field '' @ quote @ f @ quote @ '' cannot be empty'',
      ''NotEmpty field '' @ quote @ f @ quote @ '' (array/collection) cannot be empty'',
      ''NotEmpty field '' @ quote @ f @ quote @ '' (map) cannot be empty'']"

text \<open>One call on the log \<open>errs\<close> with result \<open>r\<close>: a passing call leaves the
  log as it was, a failing call leaves it as a prefix and appends the separator (when the
  log was not empty) and one message.\<close>

definition log_step :: "string \<Rightarrow> string \<Rightarrow> bool \<times> string \<Rightarrow> bool" where
  "log_step f errs r =
     (if fst r then snd r = errs
      else (\<exists>msg \<in> set (failure_messages f).
              snd r = errs @ (if errs = [] then [] else separator) @ msg))"

section \<open>Types and values of the codec\<close>

text \<open>
  The templates dispatch on the static type.  A primitive type of the model is one
  of the types of \<^verbatim>\<open>is_primitive_type\<close>: \<open>PBool\<close> (\<^verbatim>\<open>bool\<close>), \<open>PString\<close>
  (\<^verbatim>\<open>StdString\<close>), \<open>PInt sg w\<close> for the integer types of 16, 32 or 64 bits (\<^verbatim>\<open>short\<close>,
  \<^verbatim>\<open>int\<close>, \<^verbatim>\<open>long\<close>, \<^verbatim>\<open>size_t\<close> and their unsigned variants, \<open>sg\<close> telling
  signed from unsigned) and \<open>PChar sg\<close> for the 8-bit character types (\<^verbatim>\<open>char\<close>,
  \<^verbatim>\<open>unsigned char\<close>, \<^verbatim>\<open>UInt8\<close>), which a stream writes as a character.
  StandardDefines.h is not among the sources; its aliases (\<^verbatim>\<open>Int\<close>, \<^verbatim>\<open>UInt\<close>,
  \<^verbatim>\<open>Long\<close>, \<^verbatim>\<open>Char\<close>, \<^verbatim>\<open>Bool\<close>, \<^verbatim>\<open>Size\<close>, ...) are taken to name
  these types and \<^verbatim>\<open>StdString\<close> the standard string, as the source's comments
  say.  \<open>PFloat\<close> and \<open>PDouble\<close> are \<^verbatim>\<open>float\<close> and \<^verbatim>\<open>double\<close>.
\<close>

datatype int_width = W16 | W32 | W64

fun bits :: "int_width \<Rightarrow> nat" where
  "bits W16 = 16"
| "bits W32 = 32"
| "bits W64 = 64"

datatype prim = PBool | PString | PInt bool int_width | PChar bool | PFloat | PDouble

datatype seq_kind = Vector | List | Deque | Set | UnorderedSet | Array nat

datatype ctype =
    TPrim prim
  | TOptional ctype
  | TSeq seq_kind ctype
  | TAssoc ctype ctype
  | TEnum string
  | TComposite string

text \<open>A value of a user type (an enum or a class with generated
  \<^verbatim>\<open>Serialize\<close>/\<^verbatim>\<open>Deserialize\<close> members) is a datum of type \<open>'c\<close>, a
  floating-point value a datum of type \<open>'f\<close>.  A container value lists its elements
  in iteration order, a map its pairs.\<close>

datatype ('c, 'f) val =
    VBool bool
  | VStr string
  | VInt int
  | VFloat 'f
  | VOpt "('c, 'f) val option"
  | VSeq "('c, 'f) val list"
  | VMap "(('c, 'f) val \<times> ('c, 'f) val) list"
  | VExt 'c

datatype sto_error = No_conversion | Out_of_range

text \<open>
  What the model takes as given.  For the user types, by the type's name: the
  generated members of a composite type, the template specialisations of an enum,
  and the type's \<^verbatim>\<open>operator<\<close>.  For floating point: the text a stream writes for a
  value (\<open>float_text\<close>), \<^verbatim>\<open>std::stod\<close>, \<^verbatim>\<open>static_cast<float>\<close> of a
  \<^verbatim>\<open>double\<close> (\<open>float_narrow\<close>), the document library's \<^verbatim>\<open>as<float>()\<close> and
  \<^verbatim>\<open>as<double>()\<close> on a node (\<open>float_as\<close>, its first argument telling
  \<^verbatim>\<open>double\<close> from \<^verbatim>\<open>float\<close>), the node that holds a \<^verbatim>\<open>double\<close>
  (\<open>float_node\<close>) and the comparison of two values.
\<close>

record ('c, 'f) ext =
  ext_Serialize :: "string \<Rightarrow> 'c \<Rightarrow> string"
  ext_Deserialize :: "string \<Rightarrow> string \<Rightarrow> error + 'c"
  ext_less :: "string \<Rightarrow> 'c \<Rightarrow> 'c \<Rightarrow> bool"
  float_text :: "'f \<Rightarrow> string"
  float_stod :: "string \<Rightarrow> sto_error + 'f"
  float_narrow :: "'f \<Rightarrow> 'f"
  float_as :: "bool \<Rightarrow> json \<Rightarrow> 'f"
  float_node :: "'f \<Rightarrow> json"
  float_less :: "'f \<Rightarrow> 'f \<Rightarrow> bool"

text \<open>The type traits \<^verbatim>\<open>std::is_integral\<close>, \<^verbatim>\<open>std::is_floating_point\<close> and
  \<^verbatim>\<open>std::is_signed\<close> on the primitive types: \<^verbatim>\<open>bool\<close> and the character
  types are integral types.\<close>

fun is_bool :: "prim \<Rightarrow> bool" where
  "is_bool PBool = True"
| "is_bool _ = False"

fun is_string :: "prim \<Rightarrow> bool" where
  "is_string PString = True"
| "is_string _ = False"

fun is_integral :: "prim \<Rightarrow> bool" where
  "is_integral PBool = True"
| "is_integral PString = False"
| "is_integral (PInt sg w) = True"
| "is_integral (PChar sg) = True"
| "is_integral PFloat = False"
| "is_integral PDouble = False"

fun is_floating :: "prim \<Rightarrow> bool" where
  "is_floating PFloat = True"
| "is_floating PDouble = True"
| "is_floating _ = False"

fun is_character :: "prim \<Rightarrow> bool" where
  "is_character (PChar sg) = True"
| "is_character _ = False"

fun is_signed :: "prim \<Rightarrow> bool" where
  "is_signed (PInt sg w) = sg"
| "is_signed (PChar sg) = sg"
| "is_signed PFloat = True"
| "is_signed PDouble = True"
| "is_signed _ = False"

fun width :: "prim \<Rightarrow> nat" where
  "width (PInt sg w) = bits w"
| "width (PChar sg) = 8"
| "width PBool = 1"
| "width PString = 0"
| "width PFloat = 32"
| "width PDouble = 64"

text \<open>\<^verbatim>\<open>static_cast<T>\<close> of an integer to the integral type \<open>T\<close>: reduction modulo
  \<open>2 ^ w\<close>, read as two's complement when \<open>T\<close> is signed.\<close>

definition wrap :: "bool \<Rightarrow> nat \<Rightarrow> int \<Rightarrow> int" where
  "wrap sg w n =
     (if sg then (n + 2 ^ (w - 1)) mod 2 ^ w - 2 ^ (w - 1) else n mod 2 ^ w)"

definition static_cast :: "prim \<Rightarrow> int \<Rightarrow> int" where
  "static_cast T n = wrap (is_signed T) (width T) n"

definition in_range :: "bool \<Rightarrow> nat \<Rightarrow> int \<Rightarrow> bool" where
  "in_range sg w n =
     (if sg then - (2 ^ (w - 1)) \<le> n \<and> n < 2 ^ (w - 1) else 0 \<le> n \<and> n < 2 ^ w)"

text \<open>\<^verbatim>\<open>static_cast<T>\<close> of a \<^verbatim>\<open>double\<close> to the floating-point type \<open>T\<close>.\<close>

definition cast_float :: "('c, 'f) ext \<Rightarrow> prim \<Rightarrow> 'f \<Rightarrow> 'f" where
  "cast_float ext T d = (if T = PFloat then float_narrow ext d else d)"

section \<open>The standard library's conversions\<close>

definition digit_char :: "int \<Rightarrow> char" where
  "digit_char d = char_of (48 + d)"

text \<open>Decimal digits of a number: \<^verbatim>\<open>std::to_string\<close> on a \<^verbatim>\<open>size_t\<close>, and the
  stream insertion of an integer.\<close>

function dec_digits :: "int \<Rightarrow> string" where
  "dec_digits n = (if n < 10 then [digit_char n] else dec_digits (n div 10) @ [digit_char (n mod 10)])"
  by pat_completeness auto
termination
  by (relation "measure nat") auto

declare dec_digits.simps [simp del]

definition to_string :: "nat \<Rightarrow> string" where
  "to_string n = dec_digits (int n)"

definition show_int :: "int \<Rightarrow> string" where
  "show_int n = (if n < 0 then CHR ''-'' # dec_digits (- n) else dec_digits n)"

text \<open>\<^verbatim>\<open>::tolower\<close>, \<^verbatim>\<open>isspace\<close> and \<^verbatim>\<open>isdigit\<close> in the C locale.\<close>

definition tolower :: "char \<Rightarrow> char" where
  "tolower c =
     (if 65 \<le> (of_char c :: nat) \<and> (of_char c :: nat) \<le> 90 then char_of ((of_char c :: nat) + 32) else c)"

definition isspace :: "char \<Rightarrow> bool" where
  "isspace c = (c \<in> set [CHR '' '', CHR 0x09, CHR 0x0A, CHR 0x0B, CHR 0x0C, CHR 0x0D])"

definition isdigit :: "char \<Rightarrow> bool" where
  "isdigit c = (48 \<le> (of_char c :: int) \<and> (of_char c :: int) \<le> 57)"

definition digits_value :: "string \<Rightarrow> int" where
  "digits_value ds = foldl (\<lambda>acc c. acc * 10 + (of_char c - 48)) 0 ds"

text \<open>
  The subject sequence of \<^verbatim>\<open>strtol\<close>, \<^verbatim>\<open>strtoll\<close> and \<^verbatim>\<open>strtoull\<close> in base 10:
  leading white space is skipped, one sign is optional, then the longest run of
  digits is read; what follows is ignored.  \<open>None\<close> when there is no digit.
\<close>

definition scan_integer :: "string \<Rightarrow> (bool \<times> int) option" where
  "scan_integer s =
     (let s1 = dropWhile isspace s;
          neg = (s1 \<noteq> [] \<and> hd s1 = CHR ''-'');
          s2 = (if s1 \<noteq> [] \<and> (hd s1 = CHR ''-'' \<or> hd s1 = CHR ''+'') then tl s1 else s1);
          ds = takeWhile isdigit s2
      in if ds = [] then None else Some (neg, digits_value ds))"

text \<open>What \<^verbatim>\<open>std::stoi\<close>, \<^verbatim>\<open>std::stoll\<close> and \<^verbatim>\<open>std::stoull\<close> throw:
  \<^verbatim>\<open>std::invalid_argument\<close> when nothing converts, \<^verbatim>\<open>std::out_of_range\<close> when
  the number does not fit.  \<^verbatim>\<open>strtoull\<close> negates a number with a minus sign in
  the unsigned type.\<close>

definition stoll :: "string \<Rightarrow> sto_error + int" where
  "stoll s =
     (case scan_integer s of
        None \<Rightarrow> Inl No_conversion
      | Some (neg, m) \<Rightarrow>
          (let v = (if neg then - m else m)
           in if v < - (2 ^ 63) \<or> 2 ^ 63 - 1 < v then Inl Out_of_range else Inr v))"

definition stoull :: "string \<Rightarrow> sto_error + int" where
  "stoull s =
     (case scan_integer s of
        None \<Rightarrow> Inl No_conversion
      | Some (neg, m) \<Rightarrow>
          if 2 ^ 64 - 1 < m then Inl Out_of_range
          else Inr (if neg then (- m) mod 2 ^ 64 else m))"

definition stoi :: "string \<Rightarrow> sto_error + int" where
  "stoi s =
     (case scan_integer s of
        None \<Rightarrow> Inl No_conversion
      | Some (neg, m) \<Rightarrow>
          (let v = (if neg then - m else m)
           in if v < - (2 ^ 31) \<or> 2 ^ 31 - 1 < v then Inl Out_of_range else Inr v))"

text \<open>\<^verbatim>\<open>c_str()\<close> handed to a function that reads a C string: the characters
  before the first NUL.\<close>

definition c_str :: "string \<Rightarrow> string" where
  "c_str s = cstring s"

section \<open>JSON text: the writer and the reader of the document library\<close>

text \<open>
  \<^verbatim>\<open>serializeJson\<close> writes a document as compact JSON text.  A string is quoted,
  with the quote, the backslash, NUL and the control characters \<^verbatim>\<open>\b \f \n \r \t\<close>
  escaped.
\<close>

definition escape_char :: "char \<Rightarrow> string" where
  "escape_char c =
     (if c = CHR 0x22 then [CHR 0x5C, CHR 0x22]
      else if c = CHR 0x5C then [CHR 0x5C, CHR 0x5C]
      else if c = CHR 0x08 then [CHR 0x5C, CHR ''b'']
      else if c = CHR 0x0C then [CHR 0x5C, CHR ''f'']
      else if c = CHR 0x0A then [CHR 0x5C, CHR ''n'']
      else if c = CHR 0x0D then [CHR 0x5C, CHR ''r'']
      else if c = CHR 0x09 then [CHR 0x5C, CHR ''t'']
      else if c = CHR 0x00 then [CHR 0x5C, CHR ''u'', CHR ''0'', CHR ''0'', CHR ''0'', CHR ''0'']
      else [c])"

definition write_string :: "string \<Rightarrow> string" where
  "write_string s = CHR 0x22 # concat (map escape_char s) @ [CHR 0x22]"

text \<open>A float node \<open>m * 10 ^ e\<close> in decimal notation.\<close>

definition write_float :: "int \<Rightarrow> int \<Rightarrow> string" where
  "write_float m e =
     (if 0 \<le> e then show_int (m * 10 ^ nat e)
      else
        (let k = nat (- e); a = \<bar>m\<bar>; frac = dec_digits (a mod 10 ^ k)
         in (if m < 0 then ''-'' else []) @ dec_digits (a div 10 ^ k) @ ''.'' @
            replicate (k - length frac) CHR ''0'' @ frac))"

fun write_json :: "json \<Rightarrow> string"
  and write_elements :: "json list \<Rightarrow> string"
  and write_members :: "(string \<times> json) list \<Rightarrow> string" where
  "write_json JNull = ''null''"
| "write_json (JBool b) = (if b then ''true'' else ''false'')"
| "write_json (JInt n) = show_int n"
| "write_json (JFloat m e) = write_float m e"
| "write_json (JString s) = write_string s"
| "write_json (JArray xs) = ''['' @ write_elements xs @ '']''"
| "write_json (JObject kvs) = ''{'' @ write_members kvs @ ''}''"
| "write_elements [] = []"
| "write_elements [x] = write_json x"
| "write_elements (x # y # ys) = write_json x @ '','' @ write_elements (y # ys)"
| "write_members [] = []"
| "write_members [(k, v)] = write_string k @ '':'' @ write_json v"
| "write_members ((k, v) # kv # kvs) =
     write_string k @ '':'' @ write_json v @ '','' @ write_members (kv # kvs)"

definition serializeJson :: "json \<Rightarrow> string" where
  "serializeJson doc = write_json doc"

text \<open>
  \<^verbatim>\<open>deserializeJson\<close> reads one JSON value from the start of a C string and ignores
  what follows it.  Its failures are the codes of \<^verbatim>\<open>DeserializationError\<close>;
  \<^verbatim>\<open>DeserializationError::Ok\<close> is the \<open>Inr\<close> result.  Arrays and objects nest
  at most ten deep (the library's default limit).
\<close>

datatype DeserializationError = EmptyInput | IncompleteInput | InvalidInput | NoMemory | TooDeep

definition skip_spaces :: "string \<Rightarrow> string" where
  "skip_spaces s = dropWhile (\<lambda>c. c \<in> set [CHR '' '', CHR 0x09, CHR 0x0A, CHR 0x0D]) s"

definition hex_value :: "char \<Rightarrow> nat option" where
  "hex_value c =
     (let n = (of_char c :: nat) in
      if 48 \<le> n \<and> n \<le> 57 then Some (n - 48)
      else if 65 \<le> n \<and> n \<le> 70 then Some (n - 55)
      else if 97 \<le> n \<and> n \<le> 102 then Some (n - 87)
      else None)"

definition utf8_encode :: "nat \<Rightarrow> string" where
  "utf8_encode cp =
     (if cp < 128 then [char_of cp]
      else if cp < 2048 then [char_of (192 + cp div 64), char_of (128 + cp mod 64)]
      else [char_of (224 + cp div 4096), char_of (128 + (cp div 64) mod 64),
            char_of (128 + cp mod 64)])"

definition unescape_char :: "char \<Rightarrow> char option" where
  "unescape_char e =
     (if e = CHR 0x22 \<or> e = CHR 0x5C \<or> e = CHR ''/'' \<or> e = CHR 0x27 then Some e
      else if e = CHR ''b'' then Some (CHR 0x08)
      else if e = CHR ''f'' then Some (CHR 0x0C)
      else if e = CHR ''n'' then Some (CHR 0x0A)
      else if e = CHR ''r'' then Some (CHR 0x0D)
      else if e = CHR ''t'' then Some (CHR 0x09)
      else None)"

text \<open>The characters of a quoted string after its opening quote \<open>q\<close>, decoded, and
  the text after the closing quote.\<close>

fun read_quoted :: "char \<Rightarrow> string \<Rightarrow> DeserializationError + string \<times> string" where
  "read_quoted q [] = Inl IncompleteInput"
| "read_quoted q [c] = (if c = q then Inr ([], []) else Inl IncompleteInput)"
| "read_quoted q (c # e # cs) =
     (if c = q then Inr ([], e # cs)
      else if c = CHR 0x5C then
        (if e = CHR ''u'' then
           (case map hex_value (take 4 cs) of
              [Some a, Some b, Some c', Some d] \<Rightarrow>
                (case read_quoted q (drop 4 cs) of
                   Inl err \<Rightarrow> Inl err
                 | Inr (str, rest) \<Rightarrow>
                     Inr (utf8_encode (((a * 16 + b) * 16 + c') * 16 + d) @ str, rest))
            | _ \<Rightarrow> Inl InvalidInput)
         else
           (case unescape_char e of
              None \<Rightarrow> Inl InvalidInput
            | Some ch \<Rightarrow>
                (case read_quoted q cs of
                   Inl err \<Rightarrow> Inl err
                 | Inr (str, rest) \<Rightarrow> Inr (ch # str, rest))))
      else
        (case read_quoted q (e # cs) of
           Inl err \<Rightarrow> Inl err
         | Inr (str, rest) \<Rightarrow> Inr (c # str, rest)))"

text \<open>A number: the longest run of the characters that can stand in a number is
  read as \<open>[sign] digits [. digits] [e [sign] digits]\<close>.  Without fraction and
  exponent, a number that fits 64 bits is an integer node; every other number is a
  float node.\<close>

definition is_number_char :: "char \<Rightarrow> bool" where
  "is_number_char c =
     (isdigit c \<or> c = CHR ''+'' \<or> c = CHR ''-'' \<or> c = CHR ''.'' \<or> c = CHR ''e'' \<or> c = CHR ''E'')"

definition split_sign :: "string \<Rightarrow> bool \<times> string" where
  "split_sign s =
     (if s \<noteq> [] \<and> hd s = CHR ''-'' then (True, tl s)
      else if s \<noteq> [] \<and> hd s = CHR ''+'' then (False, tl s)
      else (False, s))"

definition parse_number :: "string \<Rightarrow> json option" where
  "parse_number tok =
     (let (neg, r) = split_sign tok;
          ip = takeWhile isdigit r;
          r1 = dropWhile isdigit r;
          has_frac = (r1 \<noteq> [] \<and> hd r1 = CHR ''.'');
          fp = (if has_frac then takeWhile isdigit (tl r1) else []);
          r2 = (if has_frac then dropWhile isdigit (tl r1) else r1);
          has_exp = (r2 \<noteq> [] \<and> (hd r2 = CHR ''e'' \<or> hd r2 = CHR ''E''));
          (eneg, r3) = (if has_exp then split_sign (tl r2) else (False, r2));
          ep = (if has_exp then takeWhile isdigit r3 else []);
          r4 = (if has_exp then dropWhile isdigit r3 else r3);
          mant = digits_value (ip @ fp);
          ex = (if eneg then - digits_value ep else digits_value ep)
      in if ip @ fp = [] \<or> r4 \<noteq> [] \<or> (has_exp \<and> ep = []) then None
         else if \<not> has_frac \<and> \<not> has_exp \<and>
                 (if neg then mant \<le> 2 ^ 63 else mant \<le> 2 ^ 64 - 1)
           then Some (JInt (if neg then - mant else mant))
         else Some (JFloat (if neg then - mant else mant) (ex - int (length fp))))"

text \<open>One of the words \<^verbatim>\<open>true\<close>, \<^verbatim>\<open>false\<close>, \<^verbatim>\<open>null\<close> at the start of the
  text.\<close>

definition read_keyword :: "string \<Rightarrow> json \<Rightarrow> string \<Rightarrow> DeserializationError + json \<times> string" where
  "read_keyword w v s =
     (if take (length w) s = w then Inr (v, drop (length w) s)
      else if s = take (length s) w then Inl IncompleteInput
      else Inl InvalidInput)"

text \<open>\<^verbatim>\<open>obj[key] = v\<close> on the members of an object: the member is replaced or
  added at the end.\<close>

fun set_member :: "(string \<times> json) list \<Rightarrow> string \<Rightarrow> json \<Rightarrow> (string \<times> json) list" where
  "set_member [] k v = [(k, v)]"
| "set_member ((k', v') # kvs) k v =
     (if k' = k then (k, v) # kvs else (k', v') # set_member kvs k v)"

definition is_key_char :: "char \<Rightarrow> bool" where
  "is_key_char c =
     (let n = (of_char c :: nat) in
      isdigit c \<or> (65 \<le> n \<and> n \<le> 90) \<or> (97 \<le> n \<and> n \<le> 122) \<or>
      c = CHR ''_'' \<or> c = CHR ''.'' \<or> c = CHR ''+'' \<or> c = CHR ''-'')"

text \<open>A key of an object: a quoted string, or a run of letters, digits and
  \<^verbatim>\<open>_ . + -\<close> without quotes.\<close>

definition read_key :: "string \<Rightarrow> DeserializationError + string \<times> string" where
  "read_key s =
     (case s of
        [] \<Rightarrow> Inl IncompleteInput
      | c # cs \<Rightarrow>
          if c = CHR 0x22 \<or> c = CHR 0x27 then read_quoted c cs
          else if is_key_char c then Inr (takeWhile is_key_char s, dropWhile is_key_char s)
          else Inl InvalidInput)"

text \<open>The reader proper.  The first argument bounds the number of nested calls (the
  text is finite, and \<open>deserializeJson\<close> starts it above the length of the text), the
  second is the nesting that is still allowed.\<close>

fun parse_value :: "nat \<Rightarrow> nat \<Rightarrow> string \<Rightarrow> DeserializationError + json \<times> string"
  and parse_elements ::
    "nat \<Rightarrow> nat \<Rightarrow> string \<Rightarrow> json list \<Rightarrow> DeserializationError + json \<times> string"
  and parse_members ::
    "nat \<Rightarrow> nat \<Rightarrow> string \<Rightarrow> (string \<times> json) list \<Rightarrow> DeserializationError + json \<times> string"
  where
  "parse_value 0 d s = Inl NoMemory"
| "parse_value (Suc n) d s =
     (case skip_spaces s of
        [] \<Rightarrow> Inl IncompleteInput
      | c # cs \<Rightarrow>
          if c = CHR ''['' then
            (if d = 0 then Inl TooDeep
             else
               (case skip_spaces cs of
                  [] \<Rightarrow> Inl IncompleteInput
                | c2 # cs2 \<Rightarrow>
                    if c2 = CHR '']'' then Inr (JArray [], cs2)
                    else parse_elements n (d - 1) (c2 # cs2) []))
          else if c = CHR ''{'' then
            (if d = 0 then Inl TooDeep
             else
               (case skip_spaces cs of
                  [] \<Rightarrow> Inl IncompleteInput
                | c2 # cs2 \<Rightarrow>
                    if c2 = CHR ''}'' then Inr (JObject [], cs2)
                    else parse_members n (d - 1) (c2 # cs2) []))
          else if c = CHR 0x22 \<or> c = CHR 0x27 then
            (case read_quoted c cs of
               Inl err \<Rightarrow> Inl err
             | Inr (str, rest) \<Rightarrow> Inr (JString str, rest))
          else if c = CHR ''t'' then read_keyword ''true'' (JBool True) (c # cs)
          else if c = CHR ''f'' then read_keyword ''false'' (JBool False) (c # cs)
          else if c = CHR ''n'' then read_keyword ''null'' JNull (c # cs)
          else
            (case parse_number (takeWhile is_number_char (c # cs)) of
               None \<Rightarrow> Inl InvalidInput
             | Some v \<Rightarrow> Inr (v, dropWhile is_number_char (c # cs))))"
| "parse_elements 0 d s acc = Inl NoMemory"
| "parse_elements (Suc n) d s acc =
     (case parse_value n d s of
        Inl err \<Rightarrow> Inl err
      | Inr (v, rest) \<Rightarrow>
          (case skip_spaces rest of
             [] \<Rightarrow> Inl IncompleteInput
           | c # cs \<Rightarrow>
               if c = CHR '']'' then Inr (JArray (acc @ [v]), cs)
               else if c = CHR '','' then parse_elements n d cs (acc @ [v])
               else Inl InvalidInput))"
| "parse_members 0 d s acc = Inl NoMemory"
| "parse_members (Suc n) d s acc =
     (case read_key (skip_spaces s) of
        Inl err \<Rightarrow> Inl err
      | Inr (k, rest) \<Rightarrow>
          (case skip_spaces rest of
             [] \<Rightarrow> Inl IncompleteInput
           | c # cs \<Rightarrow>
               if c \<noteq> CHR '':'' then Inl InvalidInput
               else
                 (case parse_value n d cs of
                    Inl err \<Rightarrow> Inl err
                  | Inr (v, rest2) \<Rightarrow>
                      (case skip_spaces rest2 of
                         [] \<Rightarrow> Inl IncompleteInput
                       | c3 # cs3 \<Rightarrow>
                           if c3 = CHR ''}'' then Inr (JObject (set_member acc k v), cs3)
                           else if c3 = CHR '','' then parse_members n d cs3 (set_member acc k v)
                           else Inl InvalidInput))))"

definition deserializeJson :: "string \<Rightarrow> DeserializationError + json" where
  "deserializeJson input =
     (if skip_spaces input = [] then Inl EmptyInput
      else
        (case parse_value (Suc (Suc (2 * length input))) 10 input of
           Inl err \<Rightarrow> Inl err
         | Inr (doc, rest) \<Rightarrow> Inr doc))"

section \<open>Primitive codec (SerializationUtility.h)\<close>

text \<open>\<^verbatim>\<open>convert_primitive_to_string<T>\<close>: the boolean words, the string itself, and
  the stream insertion for every other type.  The last equation stands for a value
  that is not of type \<open>T\<close>, which the static typing excludes.\<close>

fun convert_primitive_to_string :: "('c, 'f) ext \<Rightarrow> prim \<Rightarrow> ('c, 'f) val \<Rightarrow> string" where
  "convert_primitive_to_string ext PBool (VBool b) = (if b then ''true'' else ''false'')"
| "convert_primitive_to_string ext PString (VStr s) = s"
| "convert_primitive_to_string ext (PInt sg w) (VInt n) = show_int n"
| "convert_primitive_to_string ext (PChar sg) (VInt n) = [char_of n]"
| "convert_primitive_to_string ext PFloat (VFloat x) = float_text ext x"
| "convert_primitive_to_string ext PDouble (VFloat x) = float_text ext x"
| "convert_primitive_to_string ext _ _ = []"

text \<open>\<^verbatim>\<open>convert_string_to_primitive<T>\<close>, branch by branch in the order of the
  source: boolean, string, \<^verbatim>\<open>std::is_integral_v<T>\<close>,
  \<^verbatim>\<open>std::is_floating_point_v<T>\<close>, the character types, the stream fallback.\<close>

definition convert_string_to_primitive ::
  "('c, 'f) ext \<Rightarrow> prim \<Rightarrow> string \<Rightarrow> error + ('c, 'f) val" where
  "convert_string_to_primitive ext T input =
     (if is_bool T then
        (let lower = map tolower input in
         if lower = ''true'' \<or> lower = ''1'' then Inr (VBool True)
         else if lower = ''false'' \<or> lower = ''0'' then Inr (VBool False)
         else Inl (Invalid_argument (''Invalid boolean value: '' @ input)))
      else if is_string T then Inr (VStr input)
      else if is_integral T then
        (case (if is_signed T then stoll input else stoull input) of
           Inr n \<Rightarrow> Inr (VInt (static_cast T n))
         | Inl e \<Rightarrow> Inl (Invalid_argument (''Invalid integer value: '' @ input)))
      else if is_floating T then
        (case float_stod ext input of
           Inr d \<Rightarrow> Inr (VFloat (cast_float ext T d))
         | Inl e \<Rightarrow> Inl (Invalid_argument (''Invalid floating point value: '' @ input)))
      else if is_character T then
        (if length input = 1 then Inr (VInt (static_cast T (of_char (input ! 0))))
         else if length input = 0 then Inr (VInt (static_cast T 0))
         else
           (case stoi input of
              Inr n \<Rightarrow> Inr (VInt (static_cast T n))
            | Inl e \<Rightarrow> Inl (Invalid_argument (''Invalid character value: '' @ input))))
      else Inl (Invalid_argument (''Cannot convert string to type: '' @ input)))"

section \<open>Reading values out of a document\<close>

text \<open>\<^verbatim>\<open>as<bool>()\<close>: a boolean is itself, a number is true when it is not zero,
  null is false, every other node is true.\<close>

fun as_bool :: "json \<Rightarrow> bool" where
  "as_bool (JBool b) = b"
| "as_bool (JInt n) = (n \<noteq> 0)"
| "as_bool (JFloat m e) = (m \<noteq> 0)"
| "as_bool JNull = False"
| "as_bool _ = True"

definition trunc_float :: "int \<Rightarrow> int \<Rightarrow> int" where
  "trunc_float m e =
     (if 0 \<le> e then m * 10 ^ nat e else sgn m * (\<bar>m\<bar> div 10 ^ nat (- e)))"

text \<open>\<^verbatim>\<open>as<int64_t>()\<close> (\<open>sg\<close> true) and \<^verbatim>\<open>as<uint64_t>()\<close> (\<open>sg\<close> false): the
  number when it fits the target, truncated when it is a float, and 0 when it does not
  fit or the node holds no number.  A string node is read as a number.\<close>

fun number_as :: "bool \<Rightarrow> json \<Rightarrow> int" where
  "number_as sg (JInt n) = (if in_range sg 64 n then n else 0)"
| "number_as sg (JFloat m e) =
     (if in_range sg 64 (trunc_float m e) then trunc_float m e else 0)"
| "number_as sg _ = 0"

fun as_integer :: "bool \<Rightarrow> json \<Rightarrow> int" where
  "as_integer sg (JBool b) = (if b then 1 else 0)"
| "as_integer sg (JString s) =
     (case parse_number (cstring s) of Some v \<Rightarrow> number_as sg v | None \<Rightarrow> 0)"
| "as_integer sg v = number_as sg v"

text \<open>\<^verbatim>\<open>is<T>()\<close> and \<^verbatim>\<open>as<T>()\<close> for a primitive type \<open>T\<close> other than the
  string: a boolean node for \<^verbatim>\<open>bool\<close>, an integer node whose value fits \<open>T\<close>
  for an integral type, a number node for a floating-point type.\<close>

fun is_T :: "prim \<Rightarrow> json \<Rightarrow> bool" where
  "is_T PBool (JBool b) = True"
| "is_T (PInt sg w) (JInt n) = in_range sg (bits w) n"
| "is_T (PChar sg) (JInt n) = in_range sg 8 n"
| "is_T PFloat (JInt n) = True"
| "is_T PFloat (JFloat m e) = True"
| "is_T PDouble (JInt n) = True"
| "is_T PDouble (JFloat m e) = True"
| "is_T _ _ = False"

fun as_T :: "('c, 'f) ext \<Rightarrow> prim \<Rightarrow> json \<Rightarrow> ('c, 'f) val" where
  "as_T ext PBool v = VBool (as_bool v)"
| "as_T ext PString v = VStr (case as_cstr v of Some str \<Rightarrow> cstring str | None \<Rightarrow> [])"
| "as_T ext PFloat v = VFloat (float_as ext False v)"
| "as_T ext PDouble v = VFloat (float_as ext True v)"
| "as_T ext T v =
     VInt (let n = as_integer (is_signed T) v
           in if in_range (is_signed T) (width T) n then n else 0)"

fun array_elements :: "json \<Rightarrow> json list" where
  "array_elements (JArray xs) = xs"
| "array_elements _ = []"

fun object_pairs :: "json \<Rightarrow> (string \<times> json) list" where
  "object_pairs (JObject kvs) = kvs"
| "object_pairs _ = []"

section \<open>Container codec: deserialization\<close>

text \<open>What \<^verbatim>\<open>deserialize_and_add_element\<close> can be instantiated with: the element
  type is primitive, an enum, or a class with a static \<^verbatim>\<open>Deserialize\<close>.  The
  standard containers and \<^verbatim>\<open>std::optional\<close> have no such member.\<close>

fun instantiable_element :: "ctype \<Rightarrow> bool" where
  "instantiable_element (TPrim p) = True"
| "instantiable_element (TEnum n) = True"
| "instantiable_element (TComposite n) = True"
| "instantiable_element _ = False"

definition lift_ext :: "error + 'c \<Rightarrow> error + ('c, 'f) val" where
  "lift_ext r = (case r of Inl e \<Rightarrow> Inl e | Inr c \<Rightarrow> Inr (VExt c))"

text \<open>The extraction of a primitive from a node, as both container readers do it:
  \<^verbatim>\<open>as<bool>()\<close>; the string built from \<^verbatim>\<open>as<const char*>()\<close> (empty for the null
  pointer); \<^verbatim>\<open>static_cast<T>\<close> of \<^verbatim>\<open>as<int64_t>()\<close> or \<^verbatim>\<open>as<uint64_t>()\<close>;
  \<^verbatim>\<open>static_cast<T>\<close> of \<^verbatim>\<open>as<double>()\<close>.\<close>

definition extract_primitive :: "('c, 'f) ext \<Rightarrow> prim \<Rightarrow> json \<Rightarrow> error + ('c, 'f) val" where
  "extract_primitive ext T element =
     (if is_bool T then Inr (VBool (as_bool element))
      else if is_string T then
        Inr (VStr (case as_cstr element of Some str \<Rightarrow> cstring str | None \<Rightarrow> []))
      else if is_integral T then
        Inr (VInt (static_cast T (as_integer (is_signed T) element)))
      else if is_floating T then
        Inr (VFloat (cast_float ext T (float_as ext True element)))
      else convert_string_to_primitive ext T (serializeJson element))"

fun deserialize_element :: "('c, 'f) ext \<Rightarrow> ctype \<Rightarrow> json \<Rightarrow> error + ('c, 'f) val" where
  "deserialize_element ext (TPrim T) element = extract_primitive ext T element"
| "deserialize_element ext (TEnum n) element =
     lift_ext (ext_Deserialize ext n (serializeJson element))"
| "deserialize_element ext (TComposite n) element =
     lift_ext (ext_Deserialize ext n (serializeJson element))"
| "deserialize_element ext _ element = Inl Not_instantiable"

text \<open>The order of the values of a type: \<^verbatim>\<open>operator<\<close> of the booleans, the
  integers, the strings (by unsigned character) and the floating-point values, and
  the one of a user type.\<close>

fun string_less :: "string \<Rightarrow> string \<Rightarrow> bool" where
  "string_less [] [] = False"
| "string_less [] (y # ys) = True"
| "string_less (x # xs) [] = False"
| "string_less (x # xs) (y # ys) =
     ((of_char x :: nat) < of_char y \<or> (x = y \<and> string_less xs ys))"

definition user_less :: "('c, 'f) ext \<Rightarrow> ctype \<Rightarrow> 'c \<Rightarrow> 'c \<Rightarrow> bool" where
  "user_less ext T a b =
     (case T of TEnum n \<Rightarrow> ext_less ext n a b | TComposite n \<Rightarrow> ext_less ext n a b | _ \<Rightarrow> False)"

definition val_less :: "('c, 'f) ext \<Rightarrow> ctype \<Rightarrow> ('c, 'f) val \<Rightarrow> ('c, 'f) val \<Rightarrow> bool" where
  "val_less ext T a b =
     (case a of
        VBool x \<Rightarrow> (case b of VBool y \<Rightarrow> \<not> x \<and> y | _ \<Rightarrow> False)
      | VInt x \<Rightarrow> (case b of VInt y \<Rightarrow> x < y | _ \<Rightarrow> False)
      | VStr x \<Rightarrow> (case b of VStr y \<Rightarrow> string_less x y | _ \<Rightarrow> False)
      | VFloat x \<Rightarrow> (case b of VFloat y \<Rightarrow> float_less ext x y | _ \<Rightarrow> False)
      | VExt x \<Rightarrow> (case b of VExt y \<Rightarrow> user_less ext T x y | _ \<Rightarrow> False)
      | _ \<Rightarrow> False)"

text \<open>\<^verbatim>\<open>insert\<close> into a set: the element goes to its place in the order, and is
  dropped when an equivalent element is there.\<close>

fun ordered_insert :: "('a \<Rightarrow> 'a \<Rightarrow> bool) \<Rightarrow> 'a list \<Rightarrow> 'a \<Rightarrow> 'a list" where
  "ordered_insert lt [] v = [v]"
| "ordered_insert lt (x # xs) v =
     (if lt v x then v # x # xs
      else if lt x v then x # ordered_insert lt xs v
      else x # xs)"

text \<open>
  The insertion: \<^verbatim>\<open>insert\<close> for the sets, indexing below the size for the
  fixed-size array, \<^verbatim>\<open>push_back\<close> for the rest.  A container is the list of its
  elements in iteration order; of a fixed-size array the list holds the slots written
  so far, which are the slots below \<open>index\<close>.  The iteration order of an unordered
  set is not specified; the model gives it the order of the ordered set.
\<close>

fun add_to_container ::
  "('a \<Rightarrow> 'a \<Rightarrow> bool) \<Rightarrow> seq_kind \<Rightarrow> 'a list \<Rightarrow> 'a \<Rightarrow> nat \<Rightarrow> 'a list" where
  "add_to_container lt Set container v index = ordered_insert lt container v"
| "add_to_container lt UnorderedSet container v index = ordered_insert lt container v"
| "add_to_container lt (Array N) container v index =
     (if index < N then
        (if index < length container then container[index := v] else container @ [v])
      else container)"
| "add_to_container lt _ container v index = container @ [v]"

definition deserialize_and_add_element ::
  "('c, 'f) ext \<Rightarrow> seq_kind \<Rightarrow> ctype \<Rightarrow> ('c, 'f) val list \<Rightarrow> json \<Rightarrow> nat \<Rightarrow> error + ('c, 'f) val list" where
  "deserialize_and_add_element ext kind T container element index =
     (case deserialize_element ext T element of
        Inl e \<Rightarrow> Inl e
      | Inr deserializedValue \<Rightarrow>
          Inr (add_to_container (val_less ext T) kind container deserializedValue index))"

text \<open>The loop over the elements of the JSON array.\<close>

fun add_elements ::
  "('c, 'f) ext \<Rightarrow> seq_kind \<Rightarrow> ctype \<Rightarrow> ('c, 'f) val list \<Rightarrow> json list \<Rightarrow> nat \<Rightarrow> error + ('c, 'f) val list" where
  "add_elements ext kind T container [] index = Inr container"
| "add_elements ext kind T container (element # rest) index =
     (case deserialize_and_add_element ext kind T container element index of
        Inl e \<Rightarrow> Inl e
      | Inr container' \<Rightarrow> add_elements ext kind T container' rest (index + 1))"

fun fixed_size :: "seq_kind \<Rightarrow> nat option" where
  "fixed_size (Array N) = Some N"
| "fixed_size _ = None"

definition deserialize_sequential_container ::
  "('c, 'f) ext \<Rightarrow> seq_kind \<Rightarrow> ctype \<Rightarrow> string \<Rightarrow> error + ('c, 'f) val" where
  "deserialize_sequential_container ext kind T input =
     (if \<not> instantiable_element T then Inl Not_instantiable
      else
        (case deserializeJson (c_str input) of
           Inl err \<Rightarrow> Inl (Invalid_argument (''Failed to parse JSON: '' @ input))
         | Inr doc \<Rightarrow>
             if \<not> is_JsonArray doc then
               Inl (Invalid_argument (''Expected JSON array, got: '' @ input))
             else
               (let jsonArray = array_elements doc in
                case fixed_size kind of
                  Some arraySize \<Rightarrow>
                    if length jsonArray \<noteq> arraySize then
                      Inl (Invalid_argument
                        (''JSON array size ('' @ to_string (length jsonArray) @
                         '') does not match Array size ('' @ to_string arraySize @ '')''))
                    else
                      (case add_elements ext kind T [] jsonArray 0 of
                         Inl e \<Rightarrow> Inl e
                       | Inr container \<Rightarrow> Inr (VSeq container))
                | None \<Rightarrow>
                    (case add_elements ext kind T [] jsonArray 0 of
                       Inl e \<Rightarrow> Inl e
                     | Inr container \<Rightarrow> Inr (VSeq container)))))"

text \<open>The key and the value of one pair of a JSON object.  A key of a class type
  goes through \<^verbatim>\<open>KeyType::Deserialize\<close>, a value of a class type through
  \<^verbatim>\<open>ValueType::Deserialize\<close>; no other non-primitive type has that member.\<close>

fun deserialize_key :: "('c, 'f) ext \<Rightarrow> ctype \<Rightarrow> string \<Rightarrow> error + ('c, 'f) val" where
  "deserialize_key ext (TPrim T) k =
     (if is_string T then Inr (VStr (cstring k))
      else convert_string_to_primitive ext T (cstring k))"
| "deserialize_key ext (TComposite n) k = lift_ext (ext_Deserialize ext n (cstring k))"
| "deserialize_key ext _ k = Inl Not_instantiable"

fun deserialize_mapped :: "('c, 'f) ext \<Rightarrow> ctype \<Rightarrow> json \<Rightarrow> error + ('c, 'f) val" where
  "deserialize_mapped ext (TPrim T) v = extract_primitive ext T v"
| "deserialize_mapped ext (TComposite n) v =
     lift_ext (ext_Deserialize ext n (serializeJson v))"
| "deserialize_mapped ext _ v = Inl Not_instantiable"

fun instantiable_pair :: "ctype \<Rightarrow> bool" where
  "instantiable_pair (TPrim p) = True"
| "instantiable_pair (TComposite n) = True"
| "instantiable_pair _ = False"

text \<open>\<^verbatim>\<open>map[key] = value\<close>: the value of an equivalent key is replaced, a new
  key goes to its place in the order of the keys.  The iteration order of an
  unordered map is not specified; the model gives it the order of the ordered map.\<close>

fun map_assign ::
  "('k \<Rightarrow> 'k \<Rightarrow> bool) \<Rightarrow> ('k \<times> 'v) list \<Rightarrow> 'k \<Rightarrow> 'v \<Rightarrow> ('k \<times> 'v) list" where
  "map_assign lt [] k v = [(k, v)]"
| "map_assign lt ((k', v') # kvs) k v =
     (if lt k k' then (k, v) # (k', v') # kvs
      else if lt k' k then (k', v') # map_assign lt kvs k v
      else (k', v) # kvs)"

fun add_pairs ::
  "('c, 'f) ext \<Rightarrow> ctype \<Rightarrow> ctype \<Rightarrow> (('c, 'f) val \<times> ('c, 'f) val) list \<Rightarrow> (string \<times> json) list \<Rightarrow>
     error + (('c, 'f) val \<times> ('c, 'f) val) list" where
  "add_pairs ext K V m [] = Inr m"
| "add_pairs ext K V m ((k, v) # rest) =
     (case deserialize_key ext K k of
        Inl e \<Rightarrow> Inl e
      | Inr key \<Rightarrow>
          (case deserialize_mapped ext V v of
             Inl e \<Rightarrow> Inl e
           | Inr mapped \<Rightarrow>
               add_pairs ext K V (map_assign (val_less ext K) m key mapped) rest))"

definition deserialize_associative_container ::
  "('c, 'f) ext \<Rightarrow> ctype \<Rightarrow> ctype \<Rightarrow> string \<Rightarrow> error + ('c, 'f) val" where
  "deserialize_associative_container ext K V input =
     (if \<not> instantiable_pair K \<or> \<not> instantiable_pair V then Inl Not_instantiable
      else
        (case deserializeJson (c_str input) of
           Inl err \<Rightarrow> Inl (Invalid_argument (''Failed to parse JSON: '' @ input))
         | Inr doc \<Rightarrow>
             if \<not> is_JsonObject doc then
               Inl (Invalid_argument (''Expected JSON object, got: '' @ input))
             else
               (case add_pairs ext K V [] (object_pairs doc) of
                  Inl e \<Rightarrow> Inl e
                | Inr m \<Rightarrow> Inr (VMap m))))"

section \<open>Serialize and Deserialize\<close>

text \<open>A primitive element or mapped value written into a document as a JSON scalar:
  a boolean, a string (\<^verbatim>\<open>c_str()\<close>), \<^verbatim>\<open>static_cast<int64_t>\<close> of an integer or
  \<^verbatim>\<open>static_cast<double>\<close> of a floating-point value.\<close>

fun prim_json :: "('c, 'f) ext \<Rightarrow> prim \<Rightarrow> ('c, 'f) val \<Rightarrow> json" where
  "prim_json ext PBool (VBool b) = JBool b"
| "prim_json ext PString (VStr s) = JString (c_str s)"
| "prim_json ext (PInt sg w) (VInt n) = JInt (wrap True 64 n)"
| "prim_json ext (PChar sg) (VInt n) = JInt (wrap True 64 n)"
| "prim_json ext PFloat (VFloat x) = float_node ext x"
| "prim_json ext PDouble (VFloat x) = float_node ext x"
| "prim_json ext _ _ = JNull"

text \<open>The text of a non-primitive element is parsed and spliced in; text that does
  not parse is added as a string.\<close>

definition splice :: "string \<Rightarrow> json" where
  "splice elementJson =
     (case deserializeJson (c_str elementJson) of
        Inr elementDoc \<Rightarrow> elementDoc
      | Inl err \<Rightarrow> JString (c_str elementJson))"

fun is_primitive_type :: "ctype \<Rightarrow> bool" where
  "is_primitive_type (TPrim p) = True"
| "is_primitive_type _ = False"

fun the_prim :: "ctype \<Rightarrow> prim" where
  "the_prim (TPrim p) = p"
| "the_prim _ = PString"

fun is_string_type :: "ctype \<Rightarrow> bool" where
  "is_string_type (TPrim PString) = True"
| "is_string_type _ = False"

fun string_of :: "('c, 'f) val \<Rightarrow> string" where
  "string_of (VStr s) = s"
| "string_of _ = []"

text \<open>One step of the loop of \<^verbatim>\<open>serialize_sequential_container\<close>: the node
  added for an element, given the serializer of the element type.\<close>

definition element_json ::
  "('c, 'f) ext \<Rightarrow> ctype \<Rightarrow> (('c, 'f) val \<Rightarrow> string) \<Rightarrow> ('c, 'f) val \<Rightarrow> json" where
  "element_json ext T serialize_element element =
     (if is_primitive_type T then prim_json ext (the_prim T) element
      else splice (serialize_element element))"

text \<open>One step of the loop of \<^verbatim>\<open>serialize_associative_container\<close>: the object
  after \<^verbatim>\<open>obj[keyStr.c_str()] = ...\<close> for one pair, given the serializers of the
  key type and of the mapped type.\<close>

definition add_member ::
  "('c, 'f) ext \<Rightarrow> ctype \<Rightarrow> ctype \<Rightarrow> (('c, 'f) val \<Rightarrow> string) \<Rightarrow>
     (('c, 'f) val \<Rightarrow> string) \<Rightarrow> (string \<times> json) list \<Rightarrow> ('c, 'f) val \<times> ('c, 'f) val \<Rightarrow>
     (string \<times> json) list" where
  "add_member ext K V serialize_key serialize_mapped obj pair =
     (let keyJson = serialize_key (fst pair);
          keyStr = (if is_string_type K then string_of (fst pair) else keyJson);
          valueJson = serialize_mapped (snd pair);
          node = (case deserializeJson (c_str valueJson) of
                    Inr valueDoc \<Rightarrow> valueDoc
                  | Inl err \<Rightarrow>
                      if is_primitive_type V then prim_json ext (the_prim V) (snd pair)
                      else JString (c_str valueJson))
      in set_member obj (c_str keyStr) node)"

text \<open>
  \<^verbatim>\<open>Serialize\<close>, with \<^verbatim>\<open>serialize_sequential_container\<close> and
  \<^verbatim>\<open>serialize_associative_container\<close> as its two container equations.  The last
  equation stands for a value that is not of the static type, which cannot occur.
\<close>

fun Serialize :: "('c, 'f) ext \<Rightarrow> ctype \<Rightarrow> ('c, 'f) val \<Rightarrow> string" where
  "Serialize ext (TOptional T) (VOpt None) = []"
| "Serialize ext (TOptional T) (VOpt (Some v)) = Serialize ext T v"
| "Serialize ext (TPrim p) v = convert_primitive_to_string ext p v"
| "Serialize ext (TSeq kind T) (VSeq xs) =
     c_str (serializeJson (JArray (map (element_json ext T (\<lambda>x. Serialize ext T x)) xs)))"
| "Serialize ext (TAssoc K V) (VMap kvs) =
     c_str (serializeJson (JObject
       (foldl (add_member ext K V (\<lambda>x. Serialize ext K x) (\<lambda>x. Serialize ext V x)) [] kvs)))"
| "Serialize ext (TEnum n) (VExt c) = ext_Serialize ext n c"
| "Serialize ext (TComposite n) (VExt c) = ext_Serialize ext n c"
| "Serialize ext _ _ = []"

definition present :: "error + ('c, 'f) val \<Rightarrow> error + ('c, 'f) val" where
  "present r = (case r of Inl e \<Rightarrow> Inl e | Inr v \<Rightarrow> Inr (VOpt (Some v)))"

fun Deserialize :: "('c, 'f) ext \<Rightarrow> ctype \<Rightarrow> string \<Rightarrow> error + ('c, 'f) val" where
  "Deserialize ext (TOptional T) input =
     (if input = [] \<or> input = ''null'' \<or> input = ''{}'' then Inr (VOpt None)
      else
        (case deserializeJson (c_str input) of
           Inr doc \<Rightarrow>
             if isNull doc then Inr (VOpt None)
             else if is_primitive_type T then
               (if is_string_type T then
                  (if is_cstr doc then
                     (case as_cstr doc of
                        Some str \<Rightarrow> present (Inr (VStr (cstring str)))
                      | None \<Rightarrow> present (Deserialize ext T input))
                   else present (Deserialize ext T input))
                else if is_T (the_prim T) doc then present (Inr (as_T ext (the_prim T) doc))
                else present (Deserialize ext T input))
             else present (Deserialize ext T (serializeJson doc))
         | Inl err \<Rightarrow> present (Deserialize ext T input)))"
| "Deserialize ext (TPrim p) input = convert_string_to_primitive ext p input"
| "Deserialize ext (TSeq kind T) input = deserialize_sequential_container ext kind T input"
| "Deserialize ext (TAssoc K V) input = deserialize_associative_container ext K V input"
| "Deserialize ext (TEnum n) input = lift_ext (ext_Deserialize ext n input)"
| "Deserialize ext (TComposite n) input = lift_ext (ext_Deserialize ext n input)"

section \<open>Well-typed primitive values\<close>

text \<open>A program without user types and without floating-point values: neither
  its codec table nor its floating-point operations are ever consulted.\<close>

definition no_ext :: "(unit, unit) ext" where
  "no_ext =
     \<lparr>ext_Serialize = (\<lambda>n c. []), ext_Deserialize = (\<lambda>n s. Inl (External n)),
      ext_less = (\<lambda>n a b. False), float_text = (\<lambda>x. []),
      float_stod = (\<lambda>s. Inl No_conversion), float_narrow = (\<lambda>x. x),
      float_as = (\<lambda>d v. ()), float_node = (\<lambda>x. JNull), float_less = (\<lambda>a b. False)\<rparr>"

text \<open>The values of a primitive type: a value of an integral type lies in the range
  of the type.\<close>

fun has_prim_type :: "prim \<Rightarrow> ('c, 'f) val \<Rightarrow> bool" where
  "has_prim_type PBool (VBool b) = True"
| "has_prim_type PString (VStr s) = True"
| "has_prim_type (PInt sg w) (VInt n) = in_range sg (bits w) n"
| "has_prim_type (PChar sg) (VInt n) = in_range sg 8 n"
| "has_prim_type PFloat (VFloat x) = True"
| "has_prim_type PDouble (VFloat x) = True"
| "has_prim_type _ _ = False"

section \<open>Properties of the validators\<close>

lemma find_first_not_of_None: "find_first_not_of s cs = None \<longleftrightarrow> set s \<subseteq> set cs"
  by (induction s) (auto split: if_splits)

lemma find_first_not_of_Some:
  "find_first_not_of s cs = Some i \<Longrightarrow> i < length s \<and> s ! i \<notin> set cs"
proof (induction s arbitrary: i)
  case Nil
  then show ?case by simp
next
  case (Cons x xs)
  then show ?case by (auto split: if_splits)
qed

lemma trim_leading_empty: "trim_leading s = [] \<longleftrightarrow> set s \<subseteq> set blank_chars"
proof (cases "find_first_not_of s blank_chars")
  case None
  have "set s \<subseteq> set blank_chars"
    using None find_first_not_of_None by blast
  moreover have "trim_leading s = []"
    using None by (simp add: trim_leading_def)
  ultimately show ?thesis by simp
next
  case (Some i)
  then have "i < length s" "s ! i \<notin> set blank_chars"
    using find_first_not_of_Some by blast+
  moreover have "\<not> set s \<subseteq> set blank_chars"
    using calculation nth_mem by blast
  ultimately show ?thesis using Some by (simp add: trim_leading_def erase_prefix_def)
qed

lemma trim_trailing_empty: "trim_trailing t = [] \<longleftrightarrow> set t \<subseteq> set blank_chars"
proof (cases "t = []")
  case True
  then show ?thesis by (simp add: trim_trailing_def)
next
  case False
  show ?thesis
  proof (cases "find_first_not_of (rev t) blank_chars")
    case None
    then show ?thesis
      using False find_first_not_of_None [of "rev t" blank_chars]
      by (simp add: trim_trailing_def find_last_not_of_def)
  next
    case (Some i)
    then have "\<not> set t \<subseteq> set blank_chars"
      using find_first_not_of_None [of "rev t" blank_chars] by simp
    then show ?thesis
      using False Some by (simp add: trim_trailing_def find_last_not_of_def erase_from_def)
  qed
qed

lemma set_trim_leading: "set (trim_leading s) \<subseteq> set s"
  by (auto simp: trim_leading_def erase_prefix_def split: option.splits dest: in_set_dropD)

lemma trim_empty_iff:
  "trim_trailing (trim_leading s) = [] \<longleftrightarrow> set s \<subseteq> set blank_chars"
proof
  assume "trim_trailing (trim_leading s) = []"
  then have *: "set (trim_leading s) \<subseteq> set blank_chars"
    by (simp add: trim_trailing_empty)
  show "set s \<subseteq> set blank_chars"
  proof (cases "find_first_not_of s blank_chars")
    case None
    then show ?thesis by (simp add: find_first_not_of_None)
  next
    case (Some i)
    then have i: "i < length s" "s ! i \<notin> set blank_chars"
      using find_first_not_of_Some by blast+
    have "trim_leading s = drop i s"
      using Some by (simp add: trim_leading_def erase_prefix_def)
    moreover have "s ! i \<in> set (drop i s)"
      using i(1) by (metis Cons_nth_drop_Suc list.set_intros(1))
    ultimately show ?thesis using * i(2) by auto
  qed
next
  assume "set s \<subseteq> set blank_chars"
  then have "trim_leading s = []" by (simp add: trim_leading_empty)
  then show "trim_trailing (trim_leading s) = []" by (simp add: trim_trailing_def)
qed

text \<open>A string without NUL is its own C string; the blanks are no NUL.\<close>

lemma cstring_id: "CHR 0x00 \<notin> set s \<Longrightarrow> cstring s = s"
  by (auto simp: cstring_def takeWhile_eq_all_conv)

lemma cstring_blank: "set s \<subseteq> set blank_chars \<Longrightarrow> cstring s = s"
  by (rule cstring_id) (auto simp: blank_chars_def)

lemma cstring_Nil [simp]: "cstring [] = []"
  by (simp add: cstring_def)

subsection \<open>What each validator appends\<close>

lemma log_step_pass: "log_step f errs (True, errs)"
  by (simp add: log_step_def)

lemma log_step_fail:
  "msg \<in> set (failure_messages f) \<Longrightarrow> log_step f errs (False, append_error errs msg)"
  by (auto simp: log_step_def append_error_def)

text \<open>
  C6 (as amended).  When \<open>ValidateNotBlank\<close> fails because the field is null or
  missing it appends \<open>NotBlank field '<field>' is required but was null or missing\<close>:
  the wording of \<open>ValidateNotNull\<close> after the validator's own name.  When it fails
  because the string value consists of blanks only (space, tab, newline, carriage
  return), so that it trims to the empty string, it appends
  \<open>NotBlank field '<field>' cannot be empty or blank\<close>.
\<close>

theorem ValidateNotBlank_messages:
  "(isNull (get_member doc f) \<longrightarrow>
      ValidateNotBlank doc f errs =
        Inr (False, append_error errs
          (''NotBlank field '' @ quote @ f @ quote @ '' is required but was null or missing'')))
   \<and> (get_member doc f = JString s \<and> set s \<subseteq> set blank_chars \<longrightarrow>
      ValidateNotBlank doc f errs =
        Inr (False, append_error errs
          (''NotBlank field '' @ quote @ f @ quote @ '' cannot be empty or blank'')))"
  by (simp add: ValidateNotBlank_def trim_empty_iff cstring_blank)

theorem ValidateNotBlank_messages_witness:
  "ValidateNotBlank (JObject []) ''name'' [] =
     Inr (False, ''NotBlank field '' @ quote @ ''name'' @ quote @ '' is required but was null or missing'')
   \<and> ValidateNotBlank (JObject [(''name'', JString [CHR '' '', CHR 0x09])]) ''name'' ''earlier'' =
     Inr (False, ''earlier'' @ separator @ ''NotBlank field '' @ quote @ ''name'' @ quote @ '' cannot be empty or blank'')"
  using ValidateNotBlank_messages [of "JObject []" "''name''" "[]"]
    ValidateNotBlank_messages [of "JObject [(''name'', JString [CHR '' '', CHR 0x09])]" "''name''"
      "''earlier''" "[CHR '' '', CHR 0x09]"]
  by (simp add: get_member_def blank_chars_def append_error_def)

text \<open>
  C6 (as stated) fails: on a document without the field, \<open>ValidateNotBlank\<close> does
  not append the message that \<open>ValidateNotNull\<close> appends for that field.
\<close>

theorem ValidateNotBlank_missing_counterexample:
  "ValidateNotNull (JObject []) ''name'' [] =
     (False, ''NotNull field '' @ quote @ ''name'' @ quote @ '' is required but was null or missing'')
   \<and> ValidateNotBlank (JObject []) ''name'' [] =
     Inr (False, ''NotBlank field '' @ quote @ ''name'' @ quote @ '' is required but was null or missing'')
   \<and> ValidateNotBlank (JObject []) ''name'' [] \<noteq> Inr (ValidateNotNull (JObject []) ''name'' [])"
  by (simp add: ValidateNotBlank_def ValidateNotNull_def get_member_def append_error_def)

text \<open>
  C7 (as amended).  \<open>ValidateNotEmpty\<close> returns false exactly when the field is null
  or missing, a string whose characters before the first NUL are none (a string of
  length zero in particular), an array without elements or an object without keys;
  the three emptiness failures append the messages ending in \<open>cannot be empty\<close>,
  \<open>(array/collection) cannot be empty\<close> and \<open>(map) cannot be empty\<close>; for every
  other field (a number, a boolean, a string that does not start with NUL, a
  non-empty array or object) it returns true and the log is unchanged.
\<close>

theorem ValidateNotEmpty_cases:
  "(fst (ValidateNotEmpty doc f errs) = False \<longleftrightarrow>
      get_member doc f = JNull \<or> (\<exists>s. get_member doc f = JString s \<and> cstring s = []) \<or>
      get_member doc f = JArray [] \<or> get_member doc f = JObject [])
   \<and> (get_member doc f = JString s \<and> cstring s = [] \<longrightarrow>
        snd (ValidateNotEmpty doc f errs) =
          append_error errs (''NotEmpty field '' @ quote @ f @ quote @ '' cannot be empty''))
   \<and> (get_member doc f = JArray [] \<longrightarrow>
        snd (ValidateNotEmpty doc f errs) =
          append_error errs (''NotEmpty field '' @ quote @ f @ quote @ '' (array/collection) cannot be empty''))
   \<and> (get_member doc f = JObject [] \<longrightarrow>
        snd (ValidateNotEmpty doc f errs) =
          append_error errs (''NotEmpty field '' @ quote @ f @ quote @ '' (map) cannot be empty''))
   \<and> (fst (ValidateNotEmpty doc f errs) \<longrightarrow> snd (ValidateNotEmpty doc f errs) = errs)"
  by (cases "get_member doc f") (simp_all add: ValidateNotEmpty_def Let_def)

theorem ValidateNotEmpty_cases_witness:
  "fst (ValidateNotEmpty (JObject [(''tags'', JArray [])]) ''tags'' []) = False
   \<and> snd (ValidateNotEmpty (JObject [(''tags'', JArray [])]) ''tags'' []) =
       ''NotEmpty field '' @ quote @ ''tags'' @ quote @ '' (array/collection) cannot be empty''
   \<and> ValidateNotEmpty (JObject [(''s'', JString [])]) ''s'' [] =
       (False, ''NotEmpty field '' @ quote @ ''s'' @ quote @ '' cannot be empty'')
   \<and> ValidateNotEmpty (JObject [(''n'', JInt 0)]) ''n'' ''earlier'' = (True, ''earlier'')"
  using ValidateNotEmpty_cases [of "JObject [(''tags'', JArray [])]" "''tags''" "[]"]
    ValidateNotEmpty_cases [of "JObject [(''s'', JString [])]" "''s''" "[]" "[]"]
    ValidateNotEmpty_cases [of "JObject [(''n'', JInt 0)]" "''n''" "''earlier''"]
  by (simp add: get_member_def append_error_def prod_eq_iff)

text \<open>
  C7 (as stated) fails on a string that is not of length zero: the document
  \<^verbatim>\<open>{"f":"\u0000x"}\<close> holds a string of two characters under \<open>f\<close>, the first of
  them NUL; the text the validator reads from \<^verbatim>\<open>as<const char*>()\<close> is empty, and
  it returns false with the message \<open>cannot be empty\<close>.
\<close>

theorem ValidateNotEmpty_nul_counterexample:
  "deserializeJson
     [CHR ''{'', CHR 0x22, CHR ''f'', CHR 0x22, CHR '':'', CHR 0x22, CHR 0x5C, CHR ''u'',
      CHR ''0'', CHR ''0'', CHR ''0'', CHR ''0'', CHR ''x'', CHR 0x22, CHR ''}''] =
     Inr (JObject [(''f'', JString [CHR 0x00, CHR ''x''])])
   \<and> get_member (JObject [(''f'', JString [CHR 0x00, CHR ''x''])]) ''f'' =
       JString [CHR 0x00, CHR ''x'']
   \<and> length [CHR 0x00, CHR ''x''] = 2
   \<and> ValidateNotEmpty (JObject [(''f'', JString [CHR 0x00, CHR ''x''])]) ''f'' [] =
       (False, ''NotEmpty field '' @ quote @ ''f'' @ quote @ '' cannot be empty'')"
proof -
  have "deserializeJson
     [CHR ''{'', CHR 0x22, CHR ''f'', CHR 0x22, CHR '':'', CHR 0x22, CHR 0x5C, CHR ''u'',
      CHR ''0'', CHR ''0'', CHR ''0'', CHR ''0'', CHR ''x'', CHR 0x22, CHR ''}''] =
     Inr (JObject [(''f'', JString [CHR 0x00, CHR ''x''])])"
    by code_simp
  then show ?thesis
    by (simp add: ValidateNotEmpty_def get_member_def cstring_def append_error_def)
qed

text \<open>
  C8.  The error log is append-only.  For each of the three validators, a call that
  returns true leaves the log as it was; a call that returns false leaves the former
  log as a prefix and appends exactly one message, after the separator (comma,
  newline) whenever the log was not empty before the call.  (\<open>ValidateNotBlank\<close>
  returns nothing on a field that is present and not a string.)
\<close>

theorem validators_append_only:
  "log_step f errs (ValidateNotNull doc f errs)
   \<and> (\<forall>r. ValidateNotBlank doc f errs = Inr r \<longrightarrow> log_step f errs r)
   \<and> log_step f errs (ValidateNotEmpty doc f errs)"
proof (intro conjI allI impI)
  show "log_step f errs (ValidateNotNull doc f errs)"
    unfolding ValidateNotNull_def
    by (simp add: log_step_pass log_step_fail failure_messages_def)
next
  fix r
  assume "ValidateNotBlank doc f errs = Inr r"
  then show "log_step f errs r"
    unfolding ValidateNotBlank_def Let_def
    by (auto simp: log_step_pass log_step_fail failure_messages_def
        split: if_splits option.splits)
next
  show "log_step f errs (ValidateNotEmpty doc f errs)"
    unfolding ValidateNotEmpty_def Let_def
    by (simp add: log_step_pass log_step_fail failure_messages_def)
qed

theorem validators_append_only_witness:
  "ValidateNotNull (JObject [(''a'', JString [])]) ''a'' ''earlier'' = (True, ''earlier'')
   \<and> ValidateNotBlank (JObject [(''a'', JString [])]) ''a'' ''earlier'' =
       Inr (False, ''earlier'' @ separator @ ''NotBlank field '' @ quote @ ''a'' @ quote @ '' cannot be empty or blank'')
   \<and> log_step ''a'' ''earlier'' (ValidateNotNull (JObject [(''a'', JString [])]) ''a'' ''earlier'')
   \<and> log_step ''a'' ''earlier''
       (False, ''earlier'' @ separator @ ''NotBlank field '' @ quote @ ''a'' @ quote @ '' cannot be empty or blank'')
   \<and> log_step ''a'' ''earlier'' (ValidateNotEmpty (JObject [(''a'', JString [])]) ''a'' ''earlier'')"
proof -
  have nb: "ValidateNotBlank (JObject [(''a'', JString [])]) ''a'' ''earlier'' =
       Inr (False, ''earlier'' @ separator @ ''NotBlank field '' @ quote @ ''a'' @ quote @ '' cannot be empty or blank'')"
    by (simp add: ValidateNotBlank_def get_member_def append_error_def trim_leading_def
        trim_trailing_def cstring_def)
  have nn: "ValidateNotNull (JObject [(''a'', JString [])]) ''a'' ''earlier'' = (True, ''earlier'')"
    by (simp add: ValidateNotNull_def get_member_def)
  show ?thesis
    using validators_append_only [of "''a''" "''earlier''" "JObject [(''a'', JString [])]"] nb nn
    by simp
qed

section \<open>Properties of the primitive codec\<close>

lemma scan_integer_minus:
  assumes "ds \<noteq> []" "list_all isdigit ds"
  shows "scan_integer (CHR ''-'' # ds) = Some (True, digits_value ds)"
proof -
  have tw: "takeWhile isdigit ds = ds"
    using assms(2) by (simp add: takeWhile_eq_all_conv list_all_iff)
  have ns: "\<not> isspace CHR ''-''" by (simp add: isspace_def)
  show ?thesis
    unfolding scan_integer_def Let_def using assms(1) ns by (simp add: tw)
qed

lemma scan_integer_digits:
  assumes "ds \<noteq> []" "list_all isdigit ds"
  shows "scan_integer ds = Some (False, digits_value ds)"
proof -
  obtain c cs where ds: "ds = c # cs" using assms(1) by (cases ds) auto
  have d: "isdigit c" using assms(2) ds by simp
  have tw: "takeWhile isdigit ds = ds"
    using assms(2) by (simp add: takeWhile_eq_all_conv list_all_iff)
  have ns: "\<not> isspace c" "c \<noteq> CHR ''-''" "c \<noteq> CHR ''+''"
    using d by (auto simp: isspace_def isdigit_def)
  have dw: "dropWhile isspace ds = ds" using ns(1) ds by simp
  show ?thesis
    unfolding scan_integer_def Let_def dw using ns ds tw by simp
qed

lemma of_char_digit_char: "0 \<le> d \<Longrightarrow> d < 10 \<Longrightarrow> (of_char (digit_char d) :: int) = 48 + d"
  by (simp add: digit_char_def)

lemma isdigit_digit_char: "0 \<le> d \<Longrightarrow> d < 10 \<Longrightarrow> isdigit (digit_char d)"
  by (simp add: isdigit_def of_char_digit_char)

lemma digits_value_snoc: "digits_value (xs @ [c]) = digits_value xs * 10 + (of_char c - 48)"
  by (simp add: digits_value_def)

text \<open>Reading back the decimal digits of a number gives the number.\<close>

lemma dec_digits_props:
  "0 \<le> n \<Longrightarrow>
     dec_digits n \<noteq> [] \<and> list_all isdigit (dec_digits n) \<and> digits_value (dec_digits n) = n"
proof (induction n rule: dec_digits.induct)
  case (1 n)
  show ?case
  proof (cases "n < 10")
    case True
    then have "dec_digits n = [digit_char n]" by (simp add: dec_digits.simps)
    then show ?thesis
      using True "1.prems" by (simp add: isdigit_digit_char digits_value_def of_char_digit_char)
  next
    case False
    then have eq: "dec_digits n = dec_digits (n div 10) @ [digit_char (n mod 10)]"
      by (subst dec_digits.simps) simp
    have ih: "dec_digits (n div 10) \<noteq> [] \<and> list_all isdigit (dec_digits (n div 10)) \<and>
        digits_value (dec_digits (n div 10)) = n div 10"
      using "1.IH" False "1.prems" by simp
    have m: "0 \<le> n mod 10" "n mod 10 < 10" by simp_all
    show ?thesis
      using ih m by (simp add: eq digits_value_snoc isdigit_digit_char of_char_digit_char)
  qed
qed

lemma wrap_in_range:
  assumes w: "0 < w" and r: "in_range sg w n"
  shows "wrap sg w n = n"
proof -
  have p: "(2::int) ^ w = 2 * 2 ^ (w - 1)"
    using w by (cases w) simp_all
  show ?thesis
  proof (cases sg)
    case True
    then have "0 \<le> n + 2 ^ (w - 1)" "n + 2 ^ (w - 1) < 2 ^ w"
      using r p by (simp_all add: in_range_def)
    then have "(n + 2 ^ (w - 1)) mod 2 ^ w = n + 2 ^ (w - 1)" by simp
    then show ?thesis using True by (simp add: wrap_def)
  next
    case False
    then show ?thesis using r by (simp add: wrap_def in_range_def)
  qed
qed

lemma in_range_64:
  assumes "w \<le> 64" and "in_range sg w n"
  shows "in_range sg 64 n"
proof (cases sg)
  case True
  have "(2::int) ^ (w - 1) \<le> 2 ^ 63"
    using assms(1) by (intro power_increasing) auto
  then show ?thesis using assms(2) True by (auto simp: in_range_def)
next
  case False
  have "(2::int) ^ w \<le> 2 ^ 64"
    using assms(1) by (intro power_increasing) auto
  then show ?thesis using assms(2) False by (auto simp: in_range_def)
qed

text \<open>The decimal text of a number that fits 64 bits is read back by \<^verbatim>\<open>stoll\<close>
  (signed) and by \<^verbatim>\<open>stoull\<close> (unsigned).\<close>

lemma sto_show_int:
  assumes "in_range sg 64 n"
  shows "(if sg then stoll (show_int n) else stoull (show_int n)) = Inr n"
proof (cases "n < 0")
  case True
  then have sg: sg using assms by (cases sg) (auto simp: in_range_def)
  have "scan_integer (show_int n) = Some (True, - n)"
    using True scan_integer_minus [of "dec_digits (- n)"] dec_digits_props [of "- n"]
    by (simp add: show_int_def)
  then show ?thesis using sg assms by (simp add: stoll_def in_range_def)
next
  case False
  then have "scan_integer (show_int n) = Some (False, n)"
    using scan_integer_digits [of "dec_digits n"] dec_digits_props [of n]
    by (simp add: show_int_def)
  then show ?thesis
    using False assms by (cases sg) (simp_all add: stoll_def stoull_def in_range_def)
qed

lemma width_bounds: "is_integral T \<Longrightarrow> 0 < width T \<and> width T \<le> 64"
proof (cases T)
  case (PInt sg w)
  then show ?thesis by (cases w) simp_all
qed simp_all

text \<open>The integral branch of \<^verbatim>\<open>convert_string_to_primitive\<close> reads the decimal
  text of a value of the type back to the value.\<close>

lemma read_decimal_text:
  assumes "is_integral T" and "\<not> is_bool T" and "in_range (is_signed T) (width T) n"
  shows "convert_string_to_primitive ext T (show_int n) = Inr (VInt n)"
proof -
  have ns: "\<not> is_string T" using assms(1) by (cases T) simp_all
  have wb: "0 < width T" "width T \<le> 64" using width_bounds [OF assms(1)] by simp_all
  have "in_range (is_signed T) 64 n" using in_range_64 [OF wb(2) assms(3)] .
  then have "(if is_signed T then stoll (show_int n) else stoull (show_int n)) = Inr n"
    by (rule sto_show_int)
  moreover have "wrap (is_signed T) (width T) n = n"
    using wb(1) assms(3) by (rule wrap_in_range)
  ultimately show ?thesis
    using assms(1,2) ns by (simp add: convert_string_to_primitive_def static_cast_def)
qed

text \<open>The round trip holds for the booleans, the strings and the integer types that
  are not character types (nothing is said of the floating-point types, whose
  operations are parameters).\<close>

lemma primitive_roundtrip:
  assumes "has_prim_type p v" and "\<not> is_character p" and "\<not> is_floating p"
  shows "Deserialize ext (TPrim p) (Serialize ext (TPrim p) v) = Inr v"
proof (cases p)
  case PBool
  then obtain b where "v = VBool b" using assms(1) by (cases v) auto
  then show ?thesis using PBool
    by (cases b) (simp_all add: convert_string_to_primitive_def tolower_def)
next
  case PString
  then obtain s where "v = VStr s" using assms(1) by (cases v) auto
  then show ?thesis using PString by (simp add: convert_string_to_primitive_def)
next
  case (PInt sg w)
  then obtain n where v: "v = VInt n" using assms(1) by (cases v) auto
  then have "in_range sg (bits w) n" using PInt assms(1) by simp
  then show ?thesis using read_decimal_text [of "PInt sg w" n ext] PInt v by simp
next
  case (PChar sg)
  then show ?thesis using assms(2) by simp
next
  case PFloat
  then show ?thesis using assms(3) by simp
next
  case PDouble
  then show ?thesis using assms(3) by simp
qed

lemma scan_integer_single:
  "scan_integer [c] = (if isdigit c then Some (False, of_char c - 48) else None)"
proof (cases "isdigit c")
  case True
  then show ?thesis using scan_integer_digits [of "[c]"] by (simp add: digits_value_def)
next
  case False
  then show ?thesis by (simp add: scan_integer_def Let_def)
qed

text \<open>It fails for every value of a character type: the text is the character
  itself, which the integral branch reads as a decimal number.\<close>

lemma character_roundtrip_fails:
  assumes "in_range sg 8 n"
  shows "Deserialize ext (TPrim (PChar sg)) (Serialize ext (TPrim (PChar sg)) (VInt n)) \<noteq>
           Inr (VInt n)"
proof (cases "isdigit (char_of n)")
  case False
  then show ?thesis
    by (simp add: convert_string_to_primitive_def stoll_def stoull_def scan_integer_single)
next
  case True
  then have d: "48 \<le> n mod 256" "n mod 256 \<le> 57" by (simp_all add: isdigit_def)
  have n: "48 \<le> n" "n \<le> 57"
    using assms d by (cases sg; simp add: in_range_def; presburger)+
  have "wrap sg 8 (n - 48) = n - 48"
    using n by (intro wrap_in_range) (auto simp: in_range_def)
  moreover have "n mod 256 = n" using n by simp
  ultimately show ?thesis
    using True n
    by (cases sg)
      (simp_all add: convert_string_to_primitive_def stoll_def stoull_def scan_integer_single
        static_cast_def)
qed

text \<open>
  C1.  The claim: for every value \<open>x\<close> of a supported primitive type,
  \<open>Deserialize<T>(Serialize(x)) = x\<close>.  Evaluated on the character \<open>A\<close> (code 65)
  and on the character \<open>5\<close> (code 53) of type \<^verbatim>\<open>char\<close>: \<open>Serialize\<close> writes the
  character itself; \<open>Deserialize\<close> takes the integral branch, which raises on
  \<open>A\<close> and returns the character with code 5 on \<open>5\<close>.  The character branch of
  \<^verbatim>\<open>convert_string_to_primitive\<close> is never reached.
\<close>

theorem character_roundtrip_evaluated:
  "Serialize no_ext (TPrim (PChar True)) (VInt 65) = ''A''
   \<and> Deserialize no_ext (TPrim (PChar True)) (Serialize no_ext (TPrim (PChar True)) (VInt 65)) =
       Inl (Invalid_argument ''Invalid integer value: A'')
   \<and> Deserialize no_ext (TPrim (PChar True)) (Serialize no_ext (TPrim (PChar True)) (VInt 53)) =
       Inr (VInt 5)"
  by code_simp

text \<open>
  C9.  \<open>Deserialize<StdString>\<close> is the identity and total: for every input string
  it returns the input unchanged and raises nothing; a pair of JSON quotes around
  the text is kept.
\<close>

theorem Deserialize_string_identity:
  "Deserialize ext (TPrim PString) s = Inr (VStr s)"
  by (simp add: convert_string_to_primitive_def)

theorem Deserialize_string_identity_witness:
  \<open>Deserialize no_ext (TPrim PString) ''"hello"'' = Inr (VStr ''"hello"'')
   \<and> Deserialize no_ext (TPrim PString) [] = Inr (VStr [])\<close>
  using Deserialize_string_identity [of no_ext \<open>''"hello"''\<close>]
    Deserialize_string_identity [of no_ext "[]"]
  by simp

text \<open>
  C10 (as amended).  A minus sign followed by decimal digits, deserialized into an
  unsigned integral type of width \<open>w\<close>, raises no conversion error when the
  magnitude is at most \<open>2^64 - 1\<close>: \<^verbatim>\<open>stoull\<close> accepts it and the result is the
  negated magnitude reduced modulo \<open>2^w\<close>.  A larger magnitude is out of the range of
  \<^verbatim>\<open>stoull\<close> and raises \<open>Invalid integer value\<close>.
\<close>

theorem negative_literal_unsigned:
  assumes "ds \<noteq> []" and "list_all isdigit ds"
    and "is_integral T" and "\<not> is_bool T" and "\<not> is_signed T"
  shows "Deserialize ext (TPrim T) (CHR ''-'' # ds) =
     (if digits_value ds \<le> 2 ^ 64 - 1 then Inr (VInt ((- digits_value ds) mod 2 ^ width T))
      else Inl (Invalid_argument (''Invalid integer value: '' @ CHR ''-'' # ds)))"
proof -
  have ns: "\<not> is_string T" using assms(3) by (cases T) simp_all
  have "width T \<le> 64" using width_bounds [OF assms(3)] by simp
  then have "(2::int) ^ width T dvd 2 ^ 64" by (rule le_imp_power_dvd)
  then have "((- digits_value ds) mod 2 ^ 64) mod 2 ^ width T =
      (- digits_value ds) mod (2::int) ^ width T"
    by (rule mod_mod_cancel)
  then show ?thesis
    using scan_integer_minus [OF assms(1,2)] assms(3,4,5) ns
    by (simp add: convert_string_to_primitive_def stoull_def static_cast_def wrap_def)
qed

theorem negative_literal_unsigned_witness:
  "Deserialize no_ext (TPrim (PInt False W32)) ''-1'' = Inr (VInt 4294967295)"
  using negative_literal_unsigned [of "''1''" "PInt False W32" no_ext]
  by (simp add: isdigit_def digits_value_def)

text \<open>
  C10 (as stated) fails on a negative literal of magnitude \<open>2^64\<close>: the conversion
  error is raised.
\<close>

theorem negative_literal_unsigned_counterexample:
  "Deserialize no_ext (TPrim (PInt False W32)) ''-18446744073709551616'' =
     Inl (Invalid_argument ''Invalid integer value: -18446744073709551616'')"
  by code_simp

section \<open>Properties of the container and optional codecs\<close>







text \<open>
  C4.  Deserializing a fixed-size array of declared size \<open>N\<close> from a JSON array whose
  length differs from \<open>N\<close> fails with the size-mismatch error and yields no container;
  a result is returned only when the JSON array has exactly \<open>N\<close> elements, so a
  longer input is never truncated and a shorter one never padded.
\<close>

theorem array_size_check:
  "(instantiable_element T \<and> deserializeJson (c_str input) = Inr (JArray xs) \<and> length xs \<noteq> N \<longrightarrow>
      Deserialize ext (TSeq (Array N) T) input =
        Inl (Invalid_argument
          (''JSON array size ('' @ to_string (length xs) @
           '') does not match Array size ('' @ to_string N @ '')'')))
   \<and> (Deserialize ext (TSeq (Array N) T) input = Inr v \<longrightarrow>
        (\<exists>xs. deserializeJson (c_str input) = Inr (JArray xs) \<and> length xs = N))"
  apply (simp add: deserialize_sequential_container_def)
  apply (auto split: sum.splits if_splits)
  subgoal for doc by (cases doc) (auto split: if_splits)
  done

lemma parse_123: "deserializeJson (c_str ''[1,2,3]'') = Inr (JArray [JInt 1, JInt 2, JInt 3])"
  by code_simp

lemma parse_12: "deserializeJson (c_str ''[1,2]'') = Inr (JArray [JInt 1, JInt 2])"
  by code_simp

lemma to_string_2_3:
  "to_string 2 = ''2''" "to_string 3 = ''3''"
  "to_string (Suc (Suc 0)) = ''2''" "to_string (Suc (Suc (Suc 0))) = ''3''"
  by code_simp+

theorem array_size_check_witness:
  "Deserialize no_ext (TSeq (Array 2) (TPrim (PInt True W32))) ''[1,2,3]'' =
     Inl (Invalid_argument ''JSON array size (3) does not match Array size (2)'')
   \<and> Deserialize no_ext (TSeq (Array 3) (TPrim (PInt True W32))) ''[1,2]'' =
     Inl (Invalid_argument ''JSON array size (2) does not match Array size (3)'')"
  using array_size_check [of "TPrim (PInt True W32)" "''[1,2,3]''" "[JInt 1, JInt 2, JInt 3]" 2 no_ext]
    array_size_check [of "TPrim (PInt True W32)" "''[1,2]''" "[JInt 1, JInt 2]" 3 no_ext]
    parse_123 parse_12
  by (simp add: to_string_2_3)

text \<open>
  C5.  Container deserialization checks the top-level category of the parsed
  document before it looks at any element: when the document is not a JSON array,
  deserializing into a sequential container fails with the error
  \<open>Expected JSON array, got: <input>\<close>, and when it is not a JSON object, deserializing
  into an associative container fails with \<open>Expected JSON object, got: <input>\<close>;
  the result is the error alone, whatever the elements and their codecs are.
\<close>

theorem container_top_level_check:
  "(instantiable_element T \<and> deserializeJson (c_str input) = Inr doc \<and> \<not> is_JsonArray doc \<longrightarrow>
      Deserialize ext (TSeq kind T) input =
        Inl (Invalid_argument (''Expected JSON array, got: '' @ input)))
   \<and> (instantiable_pair K \<and> instantiable_pair V \<and>
        deserializeJson (c_str input) = Inr doc \<and> \<not> is_JsonObject doc \<longrightarrow>
      Deserialize ext (TAssoc K V) input =
        Inl (Invalid_argument (''Expected JSON object, got: '' @ input)))"
  by (simp add: deserialize_sequential_container_def deserialize_associative_container_def)

lemma parse_object_a1: \<open>deserializeJson (c_str ''{"a":1}'') = Inr (JObject [(''a'', JInt 1)])\<close>
  by code_simp

lemma parse_array_1: "deserializeJson (c_str ''[1]'') = Inr (JArray [JInt 1])"
  by code_simp

theorem container_top_level_check_witness:
  \<open>Deserialize no_ext (TSeq Vector (TPrim (PInt True W32))) ''{"a":1}'' =
     Inl (Invalid_argument (''Expected JSON array, got: '' @ ''{"a":1}''))
   \<and> Deserialize no_ext (TAssoc (TPrim PString) (TPrim (PInt True W32))) ''[1]'' =
     Inl (Invalid_argument (''Expected JSON object, got: '' @ ''[1]''))\<close>
  using container_top_level_check [where T = "TPrim (PInt True W32)" and input = \<open>''{"a":1}''\<close>
      and doc = "JObject [(''a'', JInt 1)]" and ext = no_ext and kind = Vector]
    container_top_level_check [where K = "TPrim PString" and V = "TPrim (PInt True W32)"
      and input = "''[1]''" and doc = "JArray [JInt 1]" and ext = no_ext]
    parse_object_a1 parse_array_1
  by simp

text \<open>
  C2.  The claim: the round trip of a container reproduces its elements, and for an
  associative container the same key-to-value pairs.  Evaluated on the map
  \<open>{"a" \<mapsto> "123"}\<close> from strings to strings: the value's text \<open>123\<close> parses as JSON, so
  \<open>Serialize\<close> stores the number 123 under the key; \<open>Deserialize\<close> reads the number
  with \<^verbatim>\<open>as<const char*>()\<close>, which is null for a number, and the value comes
  back as the empty string.
\<close>

theorem string_map_roundtrip_evaluated:
  \<open>Serialize no_ext (TAssoc (TPrim PString) (TPrim PString)) (VMap [(VStr ''a'', VStr ''123'')]) =
     ''{"a":123}''
   \<and> Deserialize no_ext (TAssoc (TPrim PString) (TPrim PString))
       (Serialize no_ext (TAssoc (TPrim PString) (TPrim PString))
          (VMap [(VStr ''a'', VStr ''123'')])) =
     Inr (VMap [(VStr ''a'', VStr [])])\<close>
  by code_simp

text \<open>The examples of the specification: an ordered sequence of integers and its
  text, and a map from strings to integers.\<close>

lemma vector_example:
  "Serialize no_ext (TSeq Vector (TPrim (PInt True W32))) (VSeq [VInt 1, VInt 2, VInt 3]) = ''[1,2,3]''
   \<and> Deserialize no_ext (TSeq Vector (TPrim (PInt True W32))) ''[1,2,3]'' =
       Inr (VSeq [VInt 1, VInt 2, VInt 3])"
  by code_simp

lemma map_example:
  \<open>Serialize no_ext (TAssoc (TPrim PString) (TPrim (PInt True W32))) (VMap [(VStr ''a'', VInt 1)]) =
     ''{"a":1}''\<close>
  by code_simp

end
